theory Spec2Isabelle
  imports Complex_Main "HOL-Library.Word"
begin

unbundle bit_operations_syntax

section \<open>SDM120 energy meter: Modbus reader and MQTT publisher (main/sdm120-app.c)\<close>

subsection \<open>IEEE-754 single precision values as bit patterns\<close>

text \<open>
  A C \<open>float\<close> on the target is an IEEE-754 binary32 value. The program never computes
  with floats on the decoding path: it only reinterprets four bytes. A float is therefore
  modelled by its 32-bit representation; \<open>float_val\<close> reads the represented number
  (sign bit 31, biased exponent in bits 30..23, fraction in bits 22..0), and is \<open>None\<close>
  for infinities and NaNs.
\<close>

type_synonym u16 = "16 word"
type_synonym u32 = "32 word"

datatype float = Float (float_bits: u32)

definition float_sign :: "float \<Rightarrow> bool" where
  "float_sign f = bit (float_bits f) 31"

definition float_exponent :: "float \<Rightarrow> nat" where
  "float_exponent f = unat (drop_bit 23 (float_bits f) AND 0xFF)"

definition float_fraction :: "float \<Rightarrow> nat" where
  "float_fraction f = unat (float_bits f AND 0x7FFFFF)"

definition float_val :: "float \<Rightarrow> real option" where
  "float_val f =
     (let e = float_exponent f; m = float_fraction f;
          s = (if float_sign f then - 1 else 1 :: real)
      in if e = 255 then None
         else if e = 0 then Some (s * real m / 2 ^ 149)
         else Some (s * real (2 ^ 23 + m) * 2 ^ e / 2 ^ 150))"

text \<open>The float constant \<open>1.0f\<close> and the all-zero float produced by \<open>memset\<close>.\<close>

definition float_one :: float where
  "float_one = Float 0x3F800000"

definition float_zero :: float where
  "float_zero = Float 0"

subsection \<open>The conversion union and \<open>convert_sdm120_ieee754\<close>\<close>

text \<open>
  \<^verbatim>\<open>union { float f; uint32_t u32; uint16_t words[2]; uint8_t bytes[4]; } converter;\<close>
  The four members share the same four bytes. The storage is kept as the 32-bit value
  of member \<open>u32\<close>; on the little-endian target \<open>words[0]\<close> is its low half and
  \<open>words[1]\<close> its high half, and member \<open>f\<close> is the float with these bits.
\<close>

type_synonym converter = u32

definition words_get :: "converter \<Rightarrow> nat \<Rightarrow> u16" where
  "words_get c i = ucast (drop_bit (16 * i) c)"

definition words_set :: "converter \<Rightarrow> nat \<Rightarrow> u16 \<Rightarrow> converter" where
  "words_set c i v =
     (c AND NOT (push_bit (16 * i) 0xFFFF)) OR push_bit (16 * i) (ucast v)"

definition convert_sdm120_ieee754 :: "u32 \<Rightarrow> float" where
  "convert_sdm120_ieee754 raw_u32 =
     (let converter = raw_u32;
          temp = words_get converter 0;
          converter = words_set converter 0 (words_get converter 1);
          converter = words_set converter 1 temp
      in Float converter)"

text \<open>
  The payload of the round-trip property, following the specification's words: the float
  is reinterpreted as 4 bytes (a 32-bit value) and its two 16-bit halves are exchanged.
\<close>

definition swap_halves :: "u32 \<Rightarrow> u32" where
  "swap_halves w = push_bit 16 w OR drop_bit 16 w"

definition word_swapped_payload :: "float \<Rightarrow> u32" where
  "word_swapped_payload f = swap_halves (float_bits f)"

subsection \<open>Error codes, configuration and the observable trace\<close>

text \<open>
  \<open>esp_err_t\<close> is a C \<open>int\<close>; the named codes carry the values of ESP-IDF's
  \<open>esp_err.h\<close>. Library calls may return any other code as well.
\<close>

type_synonym esp_err_t = int

definition ESP_OK :: esp_err_t where "ESP_OK = 0"
definition ESP_FAIL :: esp_err_t where "ESP_FAIL = - 1"
definition ESP_ERR_INVALID_ARG :: esp_err_t where "ESP_ERR_INVALID_ARG = 0x102"
definition ESP_ERR_INVALID_STATE :: esp_err_t where "ESP_ERR_INVALID_STATE = 0x103"
definition ESP_ERR_TIMEOUT :: esp_err_t where "ESP_ERR_TIMEOUT = 0x107"

text \<open>
  The settings that the source takes from Kconfig (\<open>sdkconfig.h\<close>) are parameters.
  \<open>MQTT_PUBLISH_INDIVIDUAL_TOPICS\<close> is fixed to \<open>true\<close> by a \<open>#define\<close> of the
  source; it is kept as a setting so that both branches of the \<open>if\<close> that tests it
  are modelled.
\<close>

record config =
  MQTT_TOPIC_PREFIX :: string
  MQTT_PUBLISH_INDIVIDUAL_TOPICS :: bool
  MQTT_HOME_ASSISTANT_DISCOVERY :: bool
  MODBUS_INTER_PARAM_DELAY_MS :: nat

definition MODBUS_RETRY_DELAY_BASE_MS :: nat where
  "MODBUS_RETRY_DELAY_BASE_MS = 200"

text \<open>The meter reading: one float per parameter, in the order of the CIDs.\<close>

record sdm120_data_t =
  voltage :: float
  current :: float
  active_power :: float
  apparent_power :: float
  reactive_power :: float
  power_factor :: float
  frequency :: float
  import_active_energy :: float
  export_active_energy :: float
  total_active_energy :: float

definition CID_VOLTAGE :: nat where "CID_VOLTAGE = 0"
definition CID_CURRENT :: nat where "CID_CURRENT = 1"
definition CID_ACTIVE_POWER :: nat where "CID_ACTIVE_POWER = 2"
definition CID_APPARENT_POWER :: nat where "CID_APPARENT_POWER = 3"
definition CID_REACTIVE_POWER :: nat where "CID_REACTIVE_POWER = 4"
definition CID_POWER_FACTOR :: nat where "CID_POWER_FACTOR = 5"
definition CID_FREQUENCY :: nat where "CID_FREQUENCY = 6"
definition CID_IMPORT_ACTIVE_ENERGY :: nat where "CID_IMPORT_ACTIVE_ENERGY = 7"
definition CID_EXPORT_ACTIVE_ENERGY :: nat where "CID_EXPORT_ACTIVE_ENERGY = 8"
definition CID_TOTAL_ACTIVE_ENERGY :: nat where "CID_TOTAL_ACTIVE_ENERGY = 9"
definition CID_COUNT :: nat where "CID_COUNT = 10"

text \<open>
  The descriptor table \<open>sdm120_cid_table\<close>: CID, key, unit, first input register and
  register count of each parameter (the remaining columns are the same in every row).
\<close>

record mb_parameter_descriptor_t =
  mb_cid :: nat
  param_key :: string
  param_units :: string
  mb_reg_start :: nat
  mb_reg_size :: nat

definition descriptor ::
  "nat \<Rightarrow> string \<Rightarrow> string \<Rightarrow> nat \<Rightarrow> nat \<Rightarrow> mb_parameter_descriptor_t" where
  "descriptor c k u a n =
     \<lparr>mb_cid = c, param_key = k, param_units = u, mb_reg_start = a, mb_reg_size = n\<rparr>"

definition sdm120_cid_table :: "mb_parameter_descriptor_t list" where
  "sdm120_cid_table =
     [descriptor CID_VOLTAGE ''Voltage'' ''V'' 0x0000 2,
      descriptor CID_CURRENT ''Current'' ''A'' 0x0006 2,
      descriptor CID_ACTIVE_POWER ''Active_Power'' ''W'' 0x000C 2,
      descriptor CID_APPARENT_POWER ''Apparent_Power'' ''VA'' 0x0012 2,
      descriptor CID_REACTIVE_POWER ''Reactive_Power'' ''VAr'' 0x0018 2,
      descriptor CID_POWER_FACTOR ''Power_Factor'' [] 0x001E 2,
      descriptor CID_FREQUENCY ''Frequency'' ''Hz'' 0x0046 2,
      descriptor CID_IMPORT_ACTIVE_ENERGY ''Import_Active_Energy'' ''kWh'' 0x0048 2,
      descriptor CID_EXPORT_ACTIVE_ENERGY ''Export_Active_Energy'' ''kWh'' 0x004A 2,
      descriptor CID_TOTAL_ACTIVE_ENERGY ''Total_Active_Energy'' ''kWh'' 0x0156 2]"

definition sdm120_cid_count :: nat where
  "sdm120_cid_count = length sdm120_cid_table"

text \<open>
  What the program does to the outside world is recorded as a trace, in program order:
  every Modbus read with the code it returned, every \<open>vTaskDelay\<close> with its length in
  milliseconds, every connectivity check with its (discarded) result, and every
  \<open>esp_mqtt_client_publish\<close> with topic, payload, QoS, retain flag and the message id
  it returned. The text of a payload is produced by \<open>snprintf\<close> with \<open>%.2f\<close> and
  \<open>%.3f\<close>; the model keeps which values are formatted and with how many decimals.
\<close>

datatype payload =
    JsonPayload sdm120_data_t
  | ValuePayload nat float
  | TextPayload string

datatype event =
    MbGetParameter nat esp_err_t
  | TaskDelay nat
  | CheckConnectivity esp_err_t
  | MqttPublish string payload nat nat int

subsection \<open>The outside world of one batch of reads\<close>

text \<open>
  The Modbus controller library and the WiFi driver are not part of the program. One batch
  (one call of \<open>read_sdm120_data\<close>) asks for the descriptor of each CID once and reads
  each CID at most once per retry index, so the answers of the library during the batch
  are given by functions of the CID and the retry index:
  \<^item> \<open>mbc_master_get_cid_info c\<close>: the returned code, and whether the descriptor
    pointer it stored is non-null;
  \<^item> \<open>mbc_master_get_parameter c k\<close>: the code returned by the read of CID \<open>c\<close>
    at retry index \<open>k\<close>, and the content of \<open>raw_u32_data\<close> after the call;
  \<^item> \<open>wifi_at c\<close>: the link state seen if connectivity is checked after CID \<open>c\<close>.
\<close>

datatype esp_netif_t = Netif (esp_netif_is_netif_up: bool)

record wifi_state =
  s_wifi_netif :: "esp_netif_t option"
  wifi_connected :: bool

record modbus_env =
  mbc_master_get_cid_info :: "nat \<Rightarrow> esp_err_t \<times> bool"
  mbc_master_get_parameter :: "nat \<Rightarrow> nat \<Rightarrow> esp_err_t \<times> u32"
  wifi_at :: "nat \<Rightarrow> wifi_state"

definition check_sdm120_connectivity :: "wifi_state \<Rightarrow> esp_err_t" where
  "check_sdm120_connectivity w =
     (case s_wifi_netif w of
        None \<Rightarrow> ESP_ERR_INVALID_STATE
      | Some netif \<Rightarrow>
          if \<not> esp_netif_is_netif_up netif then ESP_ERR_INVALID_STATE
          else if \<not> wifi_connected w then ESP_ERR_INVALID_STATE
          else ESP_OK)"

subsection \<open>\<open>read_sdm120_data\<close>\<close>

definition max_retries :: nat where
  "max_retries = 2"

text \<open>
  The retry loop \<open>for (retry_count = 0; retry_count <= max_retries; retry_count++)\<close>.
  Its variables are \<open>retry_count\<close>, \<open>read_err\<close> and \<open>raw_u32_data\<close>; the result is
  their value when the loop is left (by \<open>break\<close> or by the loop condition), with the
  trace.
\<close>

function retry_loop ::
  "(nat \<Rightarrow> esp_err_t \<times> u32) \<Rightarrow> nat \<Rightarrow> nat \<Rightarrow> esp_err_t \<Rightarrow> u32 \<Rightarrow> event list
     \<Rightarrow> esp_err_t \<times> u32 \<times> nat \<times> event list" where
  "retry_loop get_param c retry_count read_err raw_u32_data tr =
     (if retry_count \<le> max_retries then
        (let (read_err', raw') = get_param retry_count;
             tr' = tr @ [MbGetParameter c read_err']
         in if read_err' = ESP_OK then (read_err', raw', retry_count, tr')
            else if retry_count < max_retries then
              (let delay_ms = MODBUS_RETRY_DELAY_BASE_MS + retry_count * 300
               in retry_loop get_param c (retry_count + 1) read_err' raw'
                    (tr' @ [TaskDelay delay_ms]))
            else retry_loop get_param c (retry_count + 1) read_err' raw' tr')
      else (read_err, raw_u32_data, retry_count, tr))"
  by pat_completeness auto
termination
  by (relation "measure (\<lambda>(g, c, k, e, r, t). Suc max_retries - k)") auto

text \<open>The \<open>switch (cid)\<close> that stores a converted value in its field.\<close>

definition store_value :: "nat \<Rightarrow> float \<Rightarrow> sdm120_data_t \<Rightarrow> sdm120_data_t" where
  "store_value c converted_value d =
     (if c = CID_VOLTAGE then d\<lparr>voltage := converted_value\<rparr>
      else if c = CID_CURRENT then d\<lparr>current := converted_value\<rparr>
      else if c = CID_ACTIVE_POWER then d\<lparr>active_power := converted_value\<rparr>
      else if c = CID_APPARENT_POWER then d\<lparr>apparent_power := converted_value\<rparr>
      else if c = CID_REACTIVE_POWER then d\<lparr>reactive_power := converted_value\<rparr>
      else if c = CID_POWER_FACTOR then d\<lparr>power_factor := converted_value\<rparr>
      else if c = CID_FREQUENCY then d\<lparr>frequency := converted_value\<rparr>
      else if c = CID_IMPORT_ACTIVE_ENERGY then d\<lparr>import_active_energy := converted_value\<rparr>
      else if c = CID_EXPORT_ACTIVE_ENERGY then d\<lparr>export_active_energy := converted_value\<rparr>
      else if c = CID_TOTAL_ACTIVE_ENERGY then d\<lparr>total_active_energy := converted_value\<rparr>
      else d)"

text \<open>\<open>memset(data, 0, sizeof(sdm120_data_t))\<close>: every float has all bits zero.\<close>

definition memset_zero :: sdm120_data_t where
  "memset_zero =
     \<lparr>voltage = Float 0, current = Float 0, active_power = Float 0,
      apparent_power = Float 0, reactive_power = Float 0, power_factor = Float 0,
      frequency = Float 0, import_active_energy = Float 0,
      export_active_energy = Float 0, total_active_energy = Float 0\<rparr>"

text \<open>
  The variables of \<open>read_sdm120_data\<close> that live across the parameters: the structure
  behind \<open>data\<close>, the two counters, and the trace.
\<close>

record reader =
  data :: sdm120_data_t
  timeout_count :: nat
  success_count :: nat
  trace :: "event list"

text \<open>
  The body of the loop over the CIDs. A failing \<open>mbc_master_get_cid_info\<close> skips the
  parameter (\<open>continue\<close>), also the delays at the end of the body. The plausibility
  checks only write log lines and are left out.
\<close>

definition read_parameter :: "config \<Rightarrow> modbus_env \<Rightarrow> nat \<Rightarrow> reader \<Rightarrow> reader" where
  "read_parameter cfg env c st =
     (let (err, has_descriptor) = mbc_master_get_cid_info env c
      in if err \<noteq> ESP_OK \<or> \<not> has_descriptor then st
         else
           (let (read_err, raw_u32_data, retry_count, tr) =
                  retry_loop (mbc_master_get_parameter env c) c 0 ESP_FAIL 0 (trace st);
                st1 = st\<lparr>trace := tr\<rparr>;
                st2 =
                  (if read_err = ESP_OK then
                     (let converted_value = convert_sdm120_ieee754 raw_u32_data
                      in st1\<lparr>success_count := success_count st1 + 1,
                              data := store_value c converted_value (data st1)\<rparr>)
                   else
                     (let st1' =
                            (if read_err = ESP_ERR_TIMEOUT
                             then st1\<lparr>timeout_count := timeout_count st1 + 1\<rparr>
                             else st1)
                      in if timeout_count st1' \<ge> 3 \<and> c \<ge> 2 then
                           st1'\<lparr>trace := trace st1' @
                                   [CheckConnectivity (check_sdm120_connectivity (wifi_at env c))],
                                 timeout_count := 0\<rparr>
                         else st1'));
                st3 = st2\<lparr>trace := trace st2 @ [TaskDelay (MODBUS_INTER_PARAM_DELAY_MS cfg)]\<rparr>
            in if c < 3 then st3\<lparr>trace := trace st3 @ [TaskDelay 100]\<rparr> else st3))"

text \<open>\<open>for (uint16_t cid = 0; cid < sdm120_cid_count; cid++)\<close>\<close>

function read_parameters :: "config \<Rightarrow> modbus_env \<Rightarrow> nat \<Rightarrow> reader \<Rightarrow> reader" where
  "read_parameters cfg env c st =
     (if c < sdm120_cid_count
      then read_parameters cfg env (c + 1) (read_parameter cfg env c st)
      else st)"
  by pat_completeness auto
termination
  by (relation "measure (\<lambda>(cfg, env, c, st). sdm120_cid_count - c)") auto

text \<open>
  \<open>read_sdm120_data\<close>: the argument is the pointer \<open>data\<close> (\<open>None\<close> for \<open>NULL\<close>,
  otherwise the structure it points to) and the trace so far; the result is the returned
  code, the structure behind the pointer afterwards, and the trace.
\<close>

definition read_sdm120_data ::
  "config \<Rightarrow> modbus_env \<Rightarrow> sdm120_data_t option \<Rightarrow> event list
     \<Rightarrow> esp_err_t \<times> sdm120_data_t option \<times> event list" where
  "read_sdm120_data cfg env data_ptr tr =
     (case data_ptr of
        None \<Rightarrow> (ESP_ERR_INVALID_ARG, None, tr)
      | Some old \<Rightarrow>
          (let st0 = \<lparr>data = memset_zero, timeout_count = 0, success_count = 0, trace = tr\<rparr>;
               st = read_parameters cfg env 0 st0
           in if success_count st = 0 then (ESP_ERR_TIMEOUT, Some (data st), trace st)
              else (ESP_OK, Some (data st), trace st)))"

subsection \<open>\<open>mqtt_publish_sdm120_data\<close>\<close>

text \<open>
  The broker session as the publisher sees it: the flag \<open>mqtt_connected\<close>, written by
  the event handler, and the client handle \<open>mqtt_client\<close> (\<open>None\<close> for \<open>NULL\<close>).
\<close>

record mqtt_session =
  mqtt_connected :: bool
  mqtt_client :: "nat option"

text \<open>\<open>snprintf(buf, n, ...)\<close> keeps at most \<open>n - 1\<close> characters of the text.\<close>

definition snprintf_buf :: "nat \<Rightarrow> string \<Rightarrow> string" where
  "snprintf_buf n s = take (n - 1) s"

text \<open>
  The ten per-parameter messages in the order of the source: topic suffix, number of
  decimals of the format, and the value.
\<close>

definition individual_values :: "sdm120_data_t \<Rightarrow> (string \<times> nat \<times> float) list" where
  "individual_values d =
     [(''voltage'', 2, voltage d),
      (''current'', 3, current d),
      (''active_power'', 2, active_power d),
      (''apparent_power'', 2, apparent_power d),
      (''reactive_power'', 2, reactive_power d),
      (''power_factor'', 3, power_factor d),
      (''frequency'', 2, frequency d),
      (''import_energy'', 3, import_active_energy d),
      (''export_energy'', 3, export_active_energy d),
      (''total_energy'', 3, total_active_energy d)]"

text \<open>
  \<open>publish k\<close> is the message id that \<open>esp_mqtt_client_publish\<close> returns for the
  \<open>k\<close>-th call of one invocation, counted from 0 (\<open>-1\<close> is failure). The results of
  the calls after the first are not looked at by the program.
\<close>

definition publish_individual ::
  "config \<Rightarrow> (nat \<Rightarrow> int) \<Rightarrow> sdm120_data_t \<Rightarrow> event list" where
  "publish_individual cfg publish d =
     map (\<lambda>(k, suffix, decimals, v).
            MqttPublish (snprintf_buf 128 (MQTT_TOPIC_PREFIX cfg @ ''/'' @ suffix))
              (ValuePayload decimals v) 0 0 (publish k))
         (zip [1 ..< 11] (individual_values d))"

definition mqtt_publish_sdm120_data ::
  "config \<Rightarrow> mqtt_session \<Rightarrow> (nat \<Rightarrow> int) \<Rightarrow> sdm120_data_t option \<Rightarrow> event list
     \<Rightarrow> esp_err_t \<times> event list" where
  "mqtt_publish_sdm120_data cfg sess publish data_ptr tr =
     (if \<not> mqtt_connected sess \<or> mqtt_client sess = None then (ESP_ERR_INVALID_STATE, tr)
      else case data_ptr of
        None \<Rightarrow> (ESP_ERR_INVALID_ARG, tr)
      | Some d \<Rightarrow>
          (let topic = snprintf_buf 128 (MQTT_TOPIC_PREFIX cfg @ ''/data'');
               msg_id = publish 0;
               tr1 = tr @ [MqttPublish topic (JsonPayload d) 0 0 msg_id]
           in if msg_id = - 1 then (ESP_FAIL, tr1)
              else if MQTT_PUBLISH_INDIVIDUAL_TOPICS cfg then
                (let tr2 = tr1 @ publish_individual cfg publish d
                 in if MQTT_HOME_ASSISTANT_DISCOVERY cfg then
                      (let availability_topic =
                             snprintf_buf 128 (MQTT_TOPIC_PREFIX cfg @ ''/status'')
                       in (ESP_OK,
                           tr2 @ [MqttPublish availability_topic (TextPayload ''online'')
                                    0 1 (publish 11)]))
                    else (ESP_OK, tr2))
              else (ESP_OK, tr1)))"

subsection \<open>\<open>sdm120_monitoring_task\<close>\<close>

text \<open>
  What one iteration of the \<open>while (1)\<close> loop meets: the Modbus answers of its batch,
  the broker session at the time of the publish, and the broker's message ids.
\<close>

record cycle_env =
  modbus :: modbus_env
  session :: mqtt_session
  esp_mqtt_client_publish :: "nat \<Rightarrow> int"

record task_state =
  read_count :: u32
  meter_data :: sdm120_data_t
  events :: "event list"

text \<open>
  The loop body. Besides the new state it returns the two locals \<open>result\<close> and
  \<open>mqtt_result\<close>; the latter is \<open>None\<close> when \<open>mqtt_publish_sdm120_data\<close> was not
  called.
\<close>

definition sdm120_monitoring_cycle ::
  "config \<Rightarrow> cycle_env \<Rightarrow> task_state \<Rightarrow> esp_err_t \<times> esp_err_t option \<times> task_state" where
  "sdm120_monitoring_cycle cfg env st =
     (let read_interval = (5000 :: nat);
          n = read_count st + 1;
          (result, data_after, tr1) =
             read_sdm120_data cfg (modbus env) (Some (meter_data st)) (events st);
          md = (case data_after of Some d \<Rightarrow> d | None \<Rightarrow> meter_data st)
      in if result = ESP_OK then
           (let (mqtt_result, tr2) =
                  mqtt_publish_sdm120_data cfg (session env) (esp_mqtt_client_publish env)
                    (Some md) tr1
            in (result, Some mqtt_result,
                \<lparr>read_count = n, meter_data = md, events = tr2 @ [TaskDelay read_interval]\<rparr>))
         else
           (let tr2 = (if result = ESP_ERR_TIMEOUT then tr1 @ [TaskDelay 2000] else tr1)
            in (result, None,
                \<lparr>read_count = n, meter_data = md, events = tr2 @ [TaskDelay read_interval]\<rparr>)))"

text \<open>
  The loop never ends; \<open>sdm120_monitoring_task cfg envs n st\<close> is the state after its
  first \<open>n\<close> iterations, iteration \<open>i\<close> meeting \<open>envs i\<close>.
\<close>

fun sdm120_monitoring_task ::
  "config \<Rightarrow> (nat \<Rightarrow> cycle_env) \<Rightarrow> nat \<Rightarrow> task_state \<Rightarrow> task_state" where
  "sdm120_monitoring_task cfg envs 0 st = st"
| "sdm120_monitoring_task cfg envs (Suc n) st =
     snd (snd (sdm120_monitoring_cycle cfg (envs n) (sdm120_monitoring_task cfg envs n st)))"

subsection \<open>Notions used to state the properties\<close>

text \<open>
  The retry index of the first successful read among the indices the loop can reach, the
  raw value a parameter ends with (\<open>None\<close> when its descriptor is missing or every
  attempt failed), and the parameters of a batch that succeed.
\<close>

definition first_success :: "(nat \<Rightarrow> esp_err_t \<times> u32) \<Rightarrow> nat option" where
  "first_success get_param = find (\<lambda>k. fst (get_param k) = ESP_OK) [0 ..< Suc max_retries]"

definition has_descriptor :: "modbus_env \<Rightarrow> nat \<Rightarrow> bool" where
  "has_descriptor env c =
     (fst (mbc_master_get_cid_info env c) = ESP_OK \<and> snd (mbc_master_get_cid_info env c))"

definition parameter_result :: "modbus_env \<Rightarrow> nat \<Rightarrow> u32 option" where
  "parameter_result env c =
     (if has_descriptor env c
      then map_option (\<lambda>k. snd (mbc_master_get_parameter env c k))
             (first_success (mbc_master_get_parameter env c))
      else None)"

definition succeeded :: "modbus_env \<Rightarrow> nat list" where
  "succeeded env = filter (\<lambda>c. parameter_result env c \<noteq> None) [0 ..< sdm120_cid_count]"

text \<open>The field of the reading that belongs to a CID.\<close>

definition field_of :: "nat \<Rightarrow> sdm120_data_t \<Rightarrow> float" where
  "field_of c d =
     (if c = CID_VOLTAGE then voltage d
      else if c = CID_CURRENT then current d
      else if c = CID_ACTIVE_POWER then active_power d
      else if c = CID_APPARENT_POWER then apparent_power d
      else if c = CID_REACTIVE_POWER then reactive_power d
      else if c = CID_POWER_FACTOR then power_factor d
      else if c = CID_FREQUENCY then frequency d
      else if c = CID_IMPORT_ACTIVE_ENERGY then import_active_energy d
      else if c = CID_EXPORT_ACTIVE_ENERGY then export_active_energy d
      else total_active_energy d)"

text \<open>Selections from a trace: the reads of one CID, the delays, the broker calls.\<close>

fun is_read_of :: "nat \<Rightarrow> event \<Rightarrow> bool" where
  "is_read_of c (MbGetParameter c' e) = (c' = c)"
| "is_read_of c _ = False"

fun is_delay :: "event \<Rightarrow> bool" where
  "is_delay (TaskDelay ms) = True"
| "is_delay _ = False"

fun is_publish :: "event \<Rightarrow> bool" where
  "is_publish (MqttPublish topic p qos retain msg_id) = True"
| "is_publish _ = False"

fun is_check :: "event \<Rightarrow> bool" where
  "is_check (CheckConnectivity e) = True"
| "is_check _ = False"

definition attempts :: "nat \<Rightarrow> event list \<Rightarrow> nat" where
  "attempts c tr = length (filter (is_read_of c) tr)"

text \<open>
  The events of the retry loop when it runs from retry index \<open>k\<close> and leaves after
  the attempt with index \<open>n - 1\<close>: each attempt, followed by its delay unless it is the
  last one. The number of attempts the loop makes from index 0.
\<close>

definition retry_events :: "(nat \<Rightarrow> esp_err_t \<times> u32) \<Rightarrow> nat \<Rightarrow> nat \<Rightarrow> nat \<Rightarrow> event list" where
  "retry_events g c k n =
     concat (map (\<lambda>i. MbGetParameter c (fst (g i)) #
                       (if Suc i < n then [TaskDelay (MODBUS_RETRY_DELAY_BASE_MS + i * 300)] else []))
                 [k ..< n])"

definition attempts_made :: "(nat \<Rightarrow> esp_err_t \<times> u32) \<Rightarrow> nat" where
  "attempts_made g = (case first_success g of Some j \<Rightarrow> Suc j | None \<Rightarrow> Suc max_retries)"

subsection \<open>Concrete situations\<close>

text \<open>
  A configuration and some outside worlds on which the properties are evaluated: a link
  that is up; a meter that answers every read at once with the raw value of 1.0; one that
  answers only CID 0; one that never answers; one whose reads of the CIDs 0, 2 and 4 time
  out at every attempt while all others succeed; and one whose reads succeed at the second
  attempt.
\<close>

definition example_config :: config where
  "example_config =
     \<lparr>MQTT_TOPIC_PREFIX = ''energy/sdm120'', MQTT_PUBLISH_INDIVIDUAL_TOPICS = True,
      MQTT_HOME_ASSISTANT_DISCOVERY = True, MODBUS_INTER_PARAM_DELAY_MS = 50\<rparr>"

definition wifi_up :: wifi_state where
  "wifi_up = \<lparr>s_wifi_netif = Some (Netif True), wifi_connected = True\<rparr>"

definition env_all_ok :: modbus_env where
  "env_all_ok =
     \<lparr>mbc_master_get_cid_info = (\<lambda>c. (ESP_OK, True)),
      mbc_master_get_parameter = (\<lambda>c k. (ESP_OK, 0x00003F80)),
      wifi_at = (\<lambda>c. wifi_up)\<rparr>"

definition env_first_only :: modbus_env where
  "env_first_only =
     \<lparr>mbc_master_get_cid_info = (\<lambda>c. (ESP_OK, True)),
      mbc_master_get_parameter =
        (\<lambda>c k. if c = 0 then (ESP_OK, 0x00003F80) else (ESP_ERR_TIMEOUT, 0)),
      wifi_at = (\<lambda>c. wifi_up)\<rparr>"

definition env_all_timeout :: modbus_env where
  "env_all_timeout =
     \<lparr>mbc_master_get_cid_info = (\<lambda>c. (ESP_OK, True)),
      mbc_master_get_parameter = (\<lambda>c k. (ESP_ERR_TIMEOUT, 0)),
      wifi_at = (\<lambda>c. wifi_up)\<rparr>"

definition env_alternating :: modbus_env where
  "env_alternating =
     \<lparr>mbc_master_get_cid_info = (\<lambda>c. (ESP_OK, True)),
      mbc_master_get_parameter =
        (\<lambda>c k. if c = 0 \<or> c = 2 \<or> c = 4 then (ESP_ERR_TIMEOUT, 0) else (ESP_OK, 0x00003F80)),
      wifi_at = (\<lambda>c. wifi_up)\<rparr>"

definition env_second_attempt :: modbus_env where
  "env_second_attempt =
     \<lparr>mbc_master_get_cid_info = (\<lambda>c. (ESP_OK, True)),
      mbc_master_get_parameter =
        (\<lambda>c k. if k = 0 then (ESP_ERR_TIMEOUT, 0) else (ESP_OK, 0x00003F80)),
      wifi_at = (\<lambda>c. wifi_up)\<rparr>"

definition session_up :: mqtt_session where
  "session_up = \<lparr>mqtt_connected = True, mqtt_client = Some 1\<rparr>"

definition session_down :: mqtt_session where
  "session_down = \<lparr>mqtt_connected = False, mqtt_client = Some 1\<rparr>"

definition example_data :: sdm120_data_t where
  "example_data = store_value CID_VOLTAGE float_one memset_zero"

definition cycle_all_timeout :: cycle_env where
  "cycle_all_timeout =
     \<lparr>modbus = env_all_timeout, session = session_up,
      esp_mqtt_client_publish = (\<lambda>k. int k + 1)\<rparr>"

definition cycle_first_only :: cycle_env where
  "cycle_first_only =
     \<lparr>modbus = env_first_only, session = session_up,
      esp_mqtt_client_publish = (\<lambda>k. int k + 1)\<rparr>"

definition initial_task :: task_state where
  "initial_task = \<lparr>read_count = 0, meter_data = example_data, events = []\<rparr>"

section \<open>Properties\<close>

subsection \<open>Auxiliary facts\<close>

lemmas esp_err_defs =
  ESP_OK_def ESP_FAIL_def ESP_ERR_INVALID_ARG_def ESP_ERR_INVALID_STATE_def ESP_ERR_TIMEOUT_def

lemmas CID_defs =
  CID_VOLTAGE_def CID_CURRENT_def CID_ACTIVE_POWER_def CID_APPARENT_POWER_def
  CID_REACTIVE_POWER_def CID_POWER_FACTOR_def CID_FREQUENCY_def
  CID_IMPORT_ACTIVE_ENERGY_def CID_EXPORT_ACTIVE_ENERGY_def CID_TOTAL_ACTIVE_ENERGY_def

declare retry_loop.simps [simp del]

declare read_parameters.simps [simp del]

lemma retry_events_step:
  "k < n \<Longrightarrow> retry_events g c k n =
     MbGetParameter c (fst (g k)) #
       (if Suc k < n then [TaskDelay (MODBUS_RETRY_DELAY_BASE_MS + k * 300)] else []) @
       retry_events g c (Suc k) n"
  by (simp add: retry_events_def upt_conv_Cons)

lemma retry_events_empty: "n \<le> k \<Longrightarrow> retry_events g c k n = []"
  by (simp add: retry_events_def)

lemma find_upt_ge:
  "find P [k ..< n] = Some j \<Longrightarrow> k \<le> j \<and> j < n \<and> P j"
  by (auto simp: find_Some_iff)

lemma find_upt_step:
  "k < n \<Longrightarrow> find P [k ..< n] = (if P k then Some k else find P [Suc k ..< n])"
  by (simp add: upt_conv_Cons del: upt_Suc)

lemma retry_loop_char:
  "k \<le> Suc max_retries \<Longrightarrow>
   retry_loop g c k e r tr =
     (case find (\<lambda>j. fst (g j) = ESP_OK) [k ..< Suc max_retries] of
        Some j \<Rightarrow> (ESP_OK, snd (g j), j, tr @ retry_events g c k (Suc j))
      | None \<Rightarrow> (if k \<le> max_retries then fst (g max_retries) else e,
                 if k \<le> max_retries then snd (g max_retries) else r,
                 Suc max_retries, tr @ retry_events g c k (Suc max_retries)))"
proof (induction g c k e r tr rule: retry_loop.induct)
  case (1 g c k e r tr)
  show ?case
  proof (cases "k \<le> max_retries")
    case False
    with "1.prems" have k: "k = Suc max_retries" by simp
    show ?thesis
      by (subst retry_loop.simps) (simp add: k retry_events_empty)
  next
    case le: True
    obtain e' r' where gk: "g k = (e', r')" by (cases "g k")
    have upt: "find (\<lambda>j. fst (g j) = ESP_OK) [k ..< Suc max_retries] =
        (if e' = ESP_OK then Some k else find (\<lambda>j. fst (g j) = ESP_OK) [Suc k ..< Suc max_retries])"
      using le gk by (simp add: find_upt_step del: upt_Suc)
    show ?thesis
    proof (cases "e' = ESP_OK")
      case True
      then show ?thesis
        by (subst retry_loop.simps) (simp add: le gk upt retry_events_step retry_events_empty del: upt_Suc)
    next
      case notok: False
      show ?thesis
      proof (cases "k < max_retries")
        case lt: True
        have IH: "retry_loop g c (Suc k) e' r'
            ((tr @ [MbGetParameter c e']) @ [TaskDelay (MODBUS_RETRY_DELAY_BASE_MS + k * 300)]) =
          (case find (\<lambda>j. fst (g j) = ESP_OK) [Suc k ..< Suc max_retries] of
             Some j \<Rightarrow> (ESP_OK, snd (g j), j,
                ((tr @ [MbGetParameter c e']) @ [TaskDelay (MODBUS_RETRY_DELAY_BASE_MS + k * 300)])
                  @ retry_events g c (Suc k) (Suc j))
           | None \<Rightarrow> (fst (g max_retries), snd (g max_retries), Suc max_retries,
                ((tr @ [MbGetParameter c e']) @ [TaskDelay (MODBUS_RETRY_DELAY_BASE_MS + k * 300)])
                  @ retry_events g c (Suc k) (Suc max_retries)))"
          using "1.IH"(1)[OF le refl gk[symmetric] refl notok lt refl] lt by (simp del: upt_Suc split: option.split)
        show ?thesis
        proof (cases "find (\<lambda>j. fst (g j) = ESP_OK) [Suc k ..< Suc max_retries]")
          case None
          then show ?thesis
            using IH lt le notok
            by (subst retry_loop.simps) (simp add: gk upt retry_events_step[of k] del: upt_Suc)
        next
          case (Some j)
          from find_upt_ge[OF Some] have "Suc k \<le> j" by simp
          then show ?thesis
            using IH lt le notok Some
            by (subst retry_loop.simps) (simp add: gk upt retry_events_step[of k] del: upt_Suc)
        qed
      next
        case nlt: False
        with le have kmax: "max_retries = k" by simp
        have IH: "retry_loop g c (Suc k) e' r' (tr @ [MbGetParameter c e']) =
            (e', r', Suc k, tr @ [MbGetParameter c e'])"
          by (subst retry_loop.simps) (simp add: kmax)
        show ?thesis
          using IH notok
          by (subst retry_loop.simps)
            (simp add: gk kmax find_upt_step retry_events_step retry_events_empty del: upt_Suc)
      qed
    qed
  qed
qed


lemma retry_loop_start:
  "retry_loop g c 0 ESP_FAIL 0 tr =
     (case first_success g of
        Some j \<Rightarrow> (ESP_OK, snd (g j), j, tr @ retry_events g c 0 (Suc j))
      | None \<Rightarrow> (fst (g max_retries), snd (g max_retries), Suc max_retries,
                 tr @ retry_events g c 0 (Suc max_retries)))"
  unfolding first_success_def
  by (subst retry_loop_char) (simp_all del: upt_Suc)

lemma first_success_None: "first_success g = None \<Longrightarrow> fst (g max_retries) \<noteq> ESP_OK"
  by (auto simp: first_success_def find_None_iff)

lemma first_success_Some:
  "first_success g = Some j \<Longrightarrow> j \<le> max_retries \<and> fst (g j) = ESP_OK"
  unfolding first_success_def by (auto dest!: find_upt_ge simp del: upt_Suc)

lemma filter_read_attempts:
  "filter (is_read_of c') (concat (map (\<lambda>i. MbGetParameter c (f i) #
       (if P i then [TaskDelay (d i)] else [])) xs)) =
     (if c' = c then map (\<lambda>i. MbGetParameter c (f i)) xs else [])"
  by (induction xs) auto

lemma filter_delay_attempts:
  "filter is_delay (concat (map (\<lambda>i. MbGetParameter c (f i) #
       (if P i then [TaskDelay (d i)] else [])) xs)) =
     map (\<lambda>i. TaskDelay (d i)) (filter P xs)"
  by (induction xs) auto

lemma filter_publish_attempts:
  "filter is_publish (concat (map (\<lambda>i. MbGetParameter c (f i) #
       (if P i then [TaskDelay (d i)] else [])) xs)) = []"
  by (induction xs) auto

lemma attempts_retry_events:
  "attempts c' (retry_events g c 0 n) = (if c' = c then n else 0)"
  by (simp add: attempts_def retry_events_def filter_read_attempts del: upt_Suc)

lemma filter_Suc_less_upt: "filter (\<lambda>i. Suc i < n) [0 ..< n] = [0 ..< n - 1]"
  by (cases n) simp_all

lemma delays_retry_events:
  "filter is_delay (retry_events g c 0 n) =
     map (\<lambda>i. TaskDelay (MODBUS_RETRY_DELAY_BASE_MS + i * 300)) [0 ..< n - 1]"
  by (simp add: retry_events_def filter_delay_attempts filter_Suc_less_upt del: upt_Suc)

lemma publish_retry_events: "filter is_publish (retry_events g c k n) = []"
  by (simp add: retry_events_def filter_publish_attempts del: upt_Suc)

lemma retry_loop_trace:
  "snd (snd (snd (retry_loop g c 0 ESP_FAIL 0 tr))) = tr @ retry_events g c 0 (attempts_made g)"
  by (simp add: retry_loop_start attempts_made_def split: option.splits)

lemma attempts_made_bounds: "1 \<le> attempts_made g \<and> attempts_made g \<le> Suc max_retries"
  by (auto simp: attempts_made_def dest: first_success_Some split: option.splits)

subsection \<open>The float decoding\<close>

lemma low_mask: "(0xFFFF :: u32) = mask 16"
  by (simp add: mask_eq_decr_exp)

lemma bit_words_get: "bit (words_get c i) n \<longleftrightarrow> n < 16 \<and> bit c (16 * i + n)"
  by (auto simp: words_get_def bit_simps)

lemma bit_words_set:
  "bit (words_set c i v) n \<longleftrightarrow>
     n < 32 \<and> (if 16 * i \<le> n \<and> n < 16 * i + 16 then bit v (n - 16 * i) else bit c n)"
  unfolding words_set_def low_mask
  by (auto simp: bit_simps dest: bit_imp_le_length)

lemma bit_swap_halves:
  "bit (swap_halves w) n \<longleftrightarrow> n < 32 \<and> (if n < 16 then bit w (n + 16) else bit w (n - 16))"
  unfolding swap_halves_def
  by (auto simp: bit_simps add.commute dest: bit_imp_le_length)

lemma convert_is_swap: "convert_sdm120_ieee754 w = Float (swap_halves w)"
proof -
  have "words_set (words_set w 0 (words_get w 1)) 1 (words_get w 0) = swap_halves w"
    by (rule bit_word_eqI)
      (auto simp: bit_words_set bit_words_get bit_swap_halves add.commute
            dest: bit_imp_le_length)
  then show ?thesis
    by (simp add: convert_sdm120_ieee754_def Let_def)
qed

lemma swap_halves_involution: "swap_halves (swap_halves w) = w"
  by (rule bit_word_eqI) (auto simp: bit_swap_halves)

lemmas float_val_defs = float_val_def float_exponent_def float_fraction_def float_sign_def

text \<open>
  C1. For every float \<open>f\<close>, decoding the 32-bit value obtained by reinterpreting \<open>f\<close>
  as 4 bytes and exchanging its two 16-bit halves gives back exactly \<open>f\<close>, bit for bit.
  The decode is a function of its argument, so it is deterministic.
\<close>

theorem decode_roundtrip: "convert_sdm120_ieee754 (word_swapped_payload f) = f"
  by (cases f) (simp add: convert_is_swap word_swapped_payload_def swap_halves_involution)

text \<open>
  C2, as stated: decoding the raw value \<open>0x80003F00\<close> yields the float 1.0. It does not:
  the decode exchanges the halves \<open>0x8000\<close> and \<open>0x3F00\<close>, which gives the bits
  \<open>0x3F008000\<close>, the number 257/512.
\<close>

theorem decode_literal_vector_counterexample:
  "convert_sdm120_ieee754 0x80003F00 = Float 0x3F008000 \<and>
   convert_sdm120_ieee754 0x80003F00 \<noteq> float_one \<and>
   float_val (convert_sdm120_ieee754 0x80003F00) = Some (257 / 512) \<and>
   float_val (convert_sdm120_ieee754 0x80003F00) \<noteq> Some 1"
  by (simp add: convert_sdm120_ieee754_def words_get_def words_set_def float_one_def
      float_val_defs)

text \<open>
  C2, amended: the bits of 1.0 are \<open>0x3F800000\<close>; with the two halves exchanged they
  are \<open>0x00003F80\<close>, and decoding the raw value \<open>0x00003F80\<close> yields exactly 1.0.
\<close>

theorem decode_literal_vector:
  "float_val float_one = Some 1 \<and>
   float_bits float_one = 0x3F800000 \<and>
   word_swapped_payload float_one = 0x00003F80 \<and>
   convert_sdm120_ieee754 0x00003F80 = float_one"
  by (simp add: convert_sdm120_ieee754_def words_get_def words_set_def float_one_def
      float_val_defs word_swapped_payload_def swap_halves_def)

subsection \<open>The batch of reads\<close>

lemma read_parameters_fold:
  "read_parameters cfg env k st = fold (read_parameter cfg env) [k ..< sdm120_cid_count] st"
proof (induction cfg env k st rule: read_parameters.induct)
  case (1 cfg env c st)
  show ?case
  proof (cases "c < sdm120_cid_count")
    case True
    then show ?thesis
      using "1.IH" by (subst read_parameters.simps) (simp add: upt_conv_Cons del: upt_Suc)
  next
    case False
    then show ?thesis by (subst read_parameters.simps) simp
  qed
qed

lemma read_parameter_skip:
  "\<not> has_descriptor env c \<Longrightarrow> read_parameter cfg env c st = st"
  by (auto simp: read_parameter_def has_descriptor_def split: prod.splits)

lemma parameter_result_skip: "\<not> has_descriptor env c \<Longrightarrow> parameter_result env c = None"
  by (simp add: parameter_result_def)

lemma data_read_parameter:
  "data (read_parameter cfg env c st) =
     (case parameter_result env c of
        Some raw \<Rightarrow> store_value c (convert_sdm120_ieee754 raw) (data st)
      | None \<Rightarrow> data st)"
proof (cases "has_descriptor env c")
  case False
  then show ?thesis by (simp add: read_parameter_skip parameter_result_skip)
next
  case True
  then show ?thesis
    by (auto simp: read_parameter_def has_descriptor_def parameter_result_def Let_def
        retry_loop_start dest: first_success_None split: prod.splits option.splits)
qed

lemma success_count_read_parameter:
  "success_count (read_parameter cfg env c st) =
     success_count st + (if parameter_result env c = None then 0 else 1)"
proof (cases "has_descriptor env c")
  case False
  then show ?thesis by (simp add: read_parameter_skip parameter_result_skip)
next
  case True
  then show ?thesis
    by (auto simp: read_parameter_def has_descriptor_def parameter_result_def Let_def
        retry_loop_start dest: first_success_None split: prod.splits option.splits)
qed


lemma attempts_append [simp]: "attempts c (xs @ ys) = attempts c xs + attempts c ys"
  by (simp add: attempts_def)

lemma attempts_simps [simp]:
  "attempts c [] = 0"
  "attempts c (TaskDelay ms # xs) = attempts c xs"
  "attempts c (CheckConnectivity e # xs) = attempts c xs"
  "attempts c (MqttPublish t p q r m # xs) = attempts c xs"
  by (simp_all add: attempts_def)

lemma attempts_read_parameter:
  "attempts c' (trace (read_parameter cfg env c st)) =
     attempts c' (trace st) +
       (if c' = c \<and> has_descriptor env c
        then attempts_made (mbc_master_get_parameter env c) else 0)"
proof (cases "has_descriptor env c")
  case False
  then show ?thesis by (simp add: read_parameter_skip)
next
  case True
  then show ?thesis
    by (auto simp: read_parameter_def has_descriptor_def Let_def attempts_made_def
        retry_loop_start attempts_retry_events split: prod.splits option.splits)
qed

lemma publish_read_parameter:
  "filter is_publish (trace (read_parameter cfg env c st)) = filter is_publish (trace st)"
proof (cases "has_descriptor env c")
  case False
  then show ?thesis by (simp add: read_parameter_skip)
next
  case True
  then show ?thesis
    by (auto simp: read_parameter_def has_descriptor_def Let_def
        retry_loop_start publish_retry_events split: prod.splits option.splits)
qed

lemma data_fold:
  "data (fold (read_parameter cfg env) cs st) =
     fold (\<lambda>c d. case parameter_result env c of
                    Some raw \<Rightarrow> store_value c (convert_sdm120_ieee754 raw) d
                  | None \<Rightarrow> d) cs (data st)"
  by (induction cs arbitrary: st) (simp_all add: data_read_parameter)

lemma success_count_fold:
  "success_count (fold (read_parameter cfg env) cs st) =
     success_count st + length (filter (\<lambda>c. parameter_result env c \<noteq> None) cs)"
  by (induction cs arbitrary: st) (simp_all add: success_count_read_parameter)

lemma attempts_fold:
  "distinct cs \<Longrightarrow>
   attempts c' (trace (fold (read_parameter cfg env) cs st)) =
     attempts c' (trace st) +
       (if c' \<in> set cs \<and> has_descriptor env c'
        then attempts_made (mbc_master_get_parameter env c') else 0)"
  by (induction cs arbitrary: st) (auto simp: attempts_read_parameter)

lemma publish_fold:
  "filter is_publish (trace (fold (read_parameter cfg env) cs st)) = filter is_publish (trace st)"
  by (induction cs arbitrary: st) (simp_all add: publish_read_parameter)

lemma cid_cases:
  "c < sdm120_cid_count \<Longrightarrow>
     c = CID_VOLTAGE \<or> c = CID_CURRENT \<or> c = CID_ACTIVE_POWER \<or> c = CID_APPARENT_POWER \<or>
     c = CID_REACTIVE_POWER \<or> c = CID_POWER_FACTOR \<or> c = CID_FREQUENCY \<or>
     c = CID_IMPORT_ACTIVE_ENERGY \<or> c = CID_EXPORT_ACTIVE_ENERGY \<or> c = CID_TOTAL_ACTIVE_ENERGY"
  unfolding sdm120_cid_count_def sdm120_cid_table_def CID_defs by simp arith

lemma field_of_store_value:
  assumes "c < sdm120_cid_count" and "c' < sdm120_cid_count"
  shows "field_of c' (store_value c v d) = (if c' = c then v else field_of c' d)"
  using cid_cases[OF assms(1)] cid_cases[OF assms(2)]
  by (elim disjE) (simp_all add: store_value_def field_of_def CID_defs)

lemma field_of_fold:
  "distinct cs \<Longrightarrow> \<forall>c \<in> set cs. c < sdm120_cid_count \<Longrightarrow> c' < sdm120_cid_count \<Longrightarrow>
   field_of c' (fold (\<lambda>c d. case parameter_result env c of
                    Some raw \<Rightarrow> store_value c (convert_sdm120_ieee754 raw) d
                  | None \<Rightarrow> d) cs d0) =
     (if c' \<in> set cs
      then (case parameter_result env c' of
              Some raw \<Rightarrow> convert_sdm120_ieee754 raw | None \<Rightarrow> field_of c' d0)
      else field_of c' d0)"
proof (induction cs arbitrary: d0)
  case Nil
  show ?case by simp
next
  case (Cons c cs)
  then show ?case
    by (auto simp: field_of_store_value split: option.splits)
qed

lemma field_of_memset_zero: "field_of c memset_zero = float_zero"
  by (simp add: field_of_def memset_zero_def float_zero_def)

lemma read_sdm120_data_Some:
  "read_sdm120_data cfg env (Some old) tr =
     (let st = fold (read_parameter cfg env) [0 ..< sdm120_cid_count]
                 \<lparr>data = memset_zero, timeout_count = 0, success_count = 0, trace = tr\<rparr>
      in (if success_count st = 0 then ESP_ERR_TIMEOUT else ESP_OK, Some (data st), trace st))"
  by (simp add: read_sdm120_data_def read_parameters_fold Let_def)

lemma read_sdm120_data_result:
  "fst (read_sdm120_data cfg env (Some old) tr) =
     (if succeeded env = [] then ESP_ERR_TIMEOUT else ESP_OK)"
  by (simp add: read_sdm120_data_Some Let_def success_count_fold succeeded_def)

lemma read_sdm120_data_field:
  assumes "c < sdm120_cid_count"
  shows "\<exists>d. fst (snd (read_sdm120_data cfg env (Some old) tr)) = Some d \<and>
     field_of c d = (case parameter_result env c of
                       Some raw \<Rightarrow> convert_sdm120_ieee754 raw | None \<Rightarrow> float_zero)"
  using assms
  by (simp add: read_sdm120_data_Some Let_def data_fold field_of_fold field_of_memset_zero
      split: option.splits)

lemma read_sdm120_data_attempts:
  "attempts c (snd (snd (read_sdm120_data cfg env (Some old) tr))) =
     attempts c tr +
       (if c < sdm120_cid_count \<and> has_descriptor env c
        then attempts_made (mbc_master_get_parameter env c) else 0)"
  by (simp add: read_sdm120_data_Some Let_def attempts_fold)

lemma read_sdm120_data_publish:
  "filter is_publish (snd (snd (read_sdm120_data cfg env data_ptr tr))) = filter is_publish tr"
  by (cases data_ptr) (simp_all add: read_sdm120_data_Some Let_def publish_fold, simp add: read_sdm120_data_def)

lemma cid_count_10: "sdm120_cid_count = 10"
  by (simp add: sdm120_cid_count_def sdm120_cid_table_def)

subsection \<open>Properties of the reader\<close>

text \<open>
  C3. Whatever the reads answer, the retry loop of a parameter makes at least one and at
  most \<open>max_retries + 1 = 3\<close> attempts, and the delays it inserts are, in order,
  \<open>MODBUS_RETRY_DELAY_BASE_MS + i * 300\<close> for \<open>i = 0, 1, ...\<close>, one after each failed
  attempt that is followed by another attempt (\<open>i\<close> is the retry index of the failed
  attempt). In a whole batch no CID is read more than 3 times.
\<close>

theorem retry_budget:
  "(let new = drop (length tr) (snd (snd (snd (retry_loop g c 0 ESP_FAIL 0 tr))))
    in 1 \<le> attempts c new \<and> attempts c new \<le> Suc max_retries \<and>
       filter is_delay new =
         map (\<lambda>i. TaskDelay (MODBUS_RETRY_DELAY_BASE_MS + i * 300)) [0 ..< attempts c new - 1]) \<and>
   Suc max_retries = 3 \<and>
   attempts c (snd (snd (read_sdm120_data cfg env data_ptr tr))) \<le> attempts c tr + Suc max_retries"
proof -
  let ?n = "attempts_made g"
  have new: "drop (length tr) (snd (snd (snd (retry_loop g c 0 ESP_FAIL 0 tr)))) =
      retry_events g c 0 ?n"
    by (simp add: retry_loop_trace)
  have n: "attempts c (retry_events g c 0 ?n) = ?n"
    by (simp add: attempts_retry_events)
  have batch: "attempts c (snd (snd (read_sdm120_data cfg env data_ptr tr)))
      \<le> attempts c tr + Suc max_retries"
  proof (cases data_ptr)
    case None
    then show ?thesis by (simp add: read_sdm120_data_def)
  next
    case (Some old)
    show ?thesis
      using attempts_made_bounds[of "mbc_master_get_parameter env c"]
      by (simp add: Some read_sdm120_data_attempts)
  qed
  show ?thesis
    using attempts_made_bounds[of g] batch
    by (simp add: new n delays_retry_events Let_def max_retries_def)
qed

theorem retry_budget_witness:
  "attempts 0 (drop 0 (snd (snd (snd (retry_loop (\<lambda>k. (ESP_ERR_TIMEOUT, 0)) 0 0 ESP_FAIL 0 [])))))
     = 3 \<and>
   filter is_delay (drop 0 (snd (snd (snd (retry_loop (\<lambda>k. (ESP_ERR_TIMEOUT, 0)) 0 0 ESP_FAIL 0 [])))))
     = [TaskDelay 200, TaskDelay 500] \<and>
   attempts 0 (snd (snd (read_sdm120_data example_config env_all_timeout (Some memset_zero) [])))
     \<le> 3 \<and>
   attempts 0 (drop 0 (snd (snd (snd
       (retry_loop (mbc_master_get_parameter env_second_attempt 0) 0 0 ESP_FAIL 0 [])))))
     = 2 \<and>
   filter is_delay (drop 0 (snd (snd (snd
       (retry_loop (mbc_master_get_parameter env_second_attempt 0) 0 0 ESP_FAIL 0 [])))))
     = [TaskDelay 200]"
proof -
  have a: "attempts 0 (snd (snd (snd (retry_loop (\<lambda>k. (ESP_ERR_TIMEOUT, 0)) 0 0 ESP_FAIL 0 [])))) = 3"
    by code_simp
  have b: "map (\<lambda>i. TaskDelay (200 + i * 300)) [0 ..< 2] = [TaskDelay 200, TaskDelay 500]"
    by code_simp
  have c: "attempts 0 (snd (snd (snd
      (retry_loop (mbc_master_get_parameter env_second_attempt 0) 0 0 ESP_FAIL 0 [])))) = 2"
    by code_simp
  show ?thesis
    using retry_budget[of "[]" "\<lambda>k. (ESP_ERR_TIMEOUT, 0)" 0 example_config env_all_timeout
        "Some memset_zero"]
      retry_budget[of "[]" "mbc_master_get_parameter env_second_attempt 0" 0 example_config
        env_all_timeout "Some memset_zero"]
    by (simp add: a b c Let_def MODBUS_RETRY_DELAY_BASE_MS_def max_retries_def)
qed

text \<open>
  C4. The batch starts from the all-zero structure whatever the structure held before.
  After the batch, whatever the reads answered, the field of every CID holds the decoded
  raw value of the first successful attempt if the parameter succeeded, and zero
  otherwise; it never holds anything else. The field of a CID depends on the answers for
  that CID only, and every parameter with a descriptor is read at least once, so a
  failure of one parameter does not end the batch.
\<close>

theorem batch_fields:
  assumes "c < sdm120_cid_count"
  shows "read_sdm120_data cfg env (Some old) tr = read_sdm120_data cfg env (Some memset_zero) tr \<and>
     field_of c memset_zero = float_zero \<and>
     (\<exists>d. fst (snd (read_sdm120_data cfg env (Some old) tr)) = Some d \<and>
        field_of c d = (case parameter_result env c of
                          Some raw \<Rightarrow> convert_sdm120_ieee754 raw | None \<Rightarrow> float_zero)) \<and>
     attempts c (snd (snd (read_sdm120_data cfg env (Some old) tr))) =
       attempts c tr + (if has_descriptor env c
                        then attempts_made (mbc_master_get_parameter env c) else 0)"
  using assms read_sdm120_data_field[OF assms, of cfg env old tr]
  by (simp add: field_of_memset_zero read_sdm120_data_attempts) (simp add: read_sdm120_data_def)

theorem batch_fields_witness:
  "(2 :: nat) < sdm120_cid_count \<and>
   parameter_result env_first_only 2 = None \<and>
   (\<exists>d. fst (snd (read_sdm120_data example_config env_first_only (Some example_data) [])) = Some d \<and>
        field_of 2 d = float_zero) \<and>
   attempts 2 (snd (snd (read_sdm120_data example_config env_first_only (Some example_data) []))) = 3"
proof -
  have c: "(2 :: nat) < sdm120_cid_count" by (simp add: cid_count_10)
  have p: "parameter_result env_first_only 2 = None" by code_simp
  have h: "has_descriptor env_first_only 2" by code_simp
  have m: "attempts_made (mbc_master_get_parameter env_first_only 2) = 3" by code_simp
  note th = batch_fields[OF c, of example_config env_first_only example_data "[]"]
  show ?thesis
    using c p h th[THEN conjunct2, THEN conjunct2, unfolded p m]
    by simp
qed

text \<open>
  C5, as stated: the outcome tells a partial batch from a complete one. It does not: a
  batch in which only CID 0 succeeds and a batch in which all ten succeed return the same
  code.
\<close>

theorem read_outcome_counterexample:
  "length (succeeded env_first_only) = 1 \<and> length (succeeded env_all_ok) = 10 \<and>
   fst (read_sdm120_data example_config env_first_only (Some memset_zero) []) = ESP_OK \<and>
   fst (read_sdm120_data example_config env_all_ok (Some memset_zero) []) = ESP_OK"
proof -
  have "succeeded env_first_only = [0]" by code_simp
  moreover have "succeeded env_all_ok = [0, 1, 2, 3, 4, 5, 6, 7, 8, 9]" by code_simp
  ultimately show ?thesis by (simp add: read_sdm120_data_result)
qed

text \<open>
  C5, amended: for a non-null \<open>data\<close> pointer the returned code is a two-way
  classification by the number of parameters that succeeded: \<open>ESP_ERR_TIMEOUT\<close> exactly
  when none succeeded, \<open>ESP_OK\<close> exactly when at least one succeeded, whether or not all
  did.
\<close>

theorem read_outcome:
  "(fst (read_sdm120_data cfg env (Some old) tr) = ESP_ERR_TIMEOUT \<longleftrightarrow> succeeded env = []) \<and>
   (fst (read_sdm120_data cfg env (Some old) tr) = ESP_OK \<longleftrightarrow> succeeded env \<noteq> []) \<and>
   ESP_ERR_TIMEOUT \<noteq> ESP_OK"
  by (simp add: read_sdm120_data_result esp_err_defs)

theorem read_outcome_witness:
  "succeeded env_all_timeout = [] \<and>
   fst (read_sdm120_data example_config env_all_timeout (Some memset_zero) []) = ESP_ERR_TIMEOUT \<and>
   succeeded env_first_only = [0] \<and>
   fst (read_sdm120_data example_config env_first_only (Some memset_zero) []) = ESP_OK"
proof -
  have a: "succeeded env_all_timeout = []" by code_simp
  have b: "succeeded env_first_only = [0]" by code_simp
  show ?thesis
    using read_outcome[of example_config env_all_timeout memset_zero "[]"]
      read_outcome[of example_config env_first_only memset_zero "[]"]
    by (simp add: a b)
qed

subsection \<open>The publisher\<close>

lemma upt_1_11: "[Suc 0 ..< 11] = [1, 2, 3, 4, 5, 6, 7, 8, 9, 10 :: nat]"
  by code_simp

lemma length_publish_individual: "length (publish_individual cfg publish d) = 10"
  by (simp add: publish_individual_def individual_values_def upt_1_11)

lemma filter_publish_individual:
  "filter is_publish (publish_individual cfg publish d) = publish_individual cfg publish d"
  by (simp add: publish_individual_def individual_values_def upt_1_11)

lemma filter_delay_individual:
  "filter is_delay (publish_individual cfg publish d) = []"
  by (simp add: publish_individual_def individual_values_def upt_1_11)

lemma publish_no_delay:
  "filter is_delay (snd (mqtt_publish_sdm120_data cfg sess publish data_ptr tr)) =
     filter is_delay tr"
  by (simp add: mqtt_publish_sdm120_data_def Let_def filter_delay_individual
      split: option.splits)

text \<open>
  C7. When the session is not connected (the flag is false or there is no client), the
  publisher returns \<open>ESP_ERR_INVALID_STATE\<close> and the trace is unchanged: no broker call
  is made and nothing is kept for later.
\<close>

theorem publish_not_connected:
  assumes "\<not> mqtt_connected sess \<or> mqtt_client sess = None"
  shows "mqtt_publish_sdm120_data cfg sess publish data_ptr tr = (ESP_ERR_INVALID_STATE, tr)"
  using assms by (auto simp: mqtt_publish_sdm120_data_def)

theorem publish_not_connected_witness:
  "mqtt_connected session_down = False \<and>
   mqtt_publish_sdm120_data example_config session_down (\<lambda>k. 1) (Some example_data) [] =
     (ESP_ERR_INVALID_STATE, [])"
proof -
  have d: "\<not> mqtt_connected session_down \<or> mqtt_client session_down = None"
    by (simp add: session_down_def)
  show ?thesis
    using publish_not_connected[OF d, of example_config "\<lambda>k. 1" "Some example_data" "[]"]
    by (simp add: session_down_def)
qed

text \<open>
  C8, as stated: connected, individual topics enabled, all ten parameters read: exactly
  12 broker calls. Not so when the broker client refuses the aggregate message (one call,
  then the publisher returns), nor when Home Assistant discovery is switched off (11
  calls, no availability message).
\<close>

theorem publish_calls_counterexample:
  "length (succeeded env_all_ok) = 10 \<and>
   mqtt_connected session_up \<and>
   MQTT_PUBLISH_INDIVIDUAL_TOPICS example_config \<and>
   length (filter is_publish (snd (mqtt_publish_sdm120_data example_config session_up
      (\<lambda>k. - 1)
      (fst (snd (read_sdm120_data example_config env_all_ok (Some memset_zero) []))) []))) = 1 \<and>
   length (filter is_publish (snd (mqtt_publish_sdm120_data
      (example_config\<lparr>MQTT_HOME_ASSISTANT_DISCOVERY := False\<rparr>) session_up
      (\<lambda>k. int k + 1)
      (fst (snd (read_sdm120_data example_config env_all_ok (Some memset_zero) []))) []))) = 11"
proof -
  have s: "succeeded env_all_ok = [0, 1, 2, 3, 4, 5, 6, 7, 8, 9]" by code_simp
  obtain d where d: "fst (snd (read_sdm120_data example_config env_all_ok (Some memset_zero) []))
      = Some d"
    by (auto simp: read_sdm120_data_Some Let_def)
  show ?thesis
    unfolding d
    by (simp add: s mqtt_publish_sdm120_data_def session_up_def example_config_def Let_def
        filter_publish_individual length_publish_individual)
qed

text \<open>
  C8, amended: when the session is connected, individual topics and Home Assistant
  discovery are enabled, and the broker client accepts the aggregate message, one
  invocation makes exactly 12 broker calls, for any reading: the aggregate message, the
  ten per-field messages, and the retained availability message \<open>online\<close>.
\<close>

theorem publish_calls:
  assumes "mqtt_connected sess" and "mqtt_client sess \<noteq> None"
    and "MQTT_PUBLISH_INDIVIDUAL_TOPICS cfg" and "MQTT_HOME_ASSISTANT_DISCOVERY cfg"
    and "publish 0 \<noteq> - 1"
  shows "mqtt_publish_sdm120_data cfg sess publish (Some d) tr =
      (ESP_OK,
       tr @ [MqttPublish (snprintf_buf 128 (MQTT_TOPIC_PREFIX cfg @ ''/data'')) (JsonPayload d)
               0 0 (publish 0)]
          @ publish_individual cfg publish d
          @ [MqttPublish (snprintf_buf 128 (MQTT_TOPIC_PREFIX cfg @ ''/status''))
               (TextPayload ''online'') 0 1 (publish 11)]) \<and>
     length (publish_individual cfg publish d) = 10 \<and>
     length (drop (length tr) (snd (mqtt_publish_sdm120_data cfg sess publish (Some d) tr)))
       = 12 \<and>
     length (filter is_publish
       (drop (length tr) (snd (mqtt_publish_sdm120_data cfg sess publish (Some d) tr)))) = 12"
  using assms
  by (simp add: mqtt_publish_sdm120_data_def Let_def length_publish_individual
      filter_publish_individual)

theorem publish_calls_witness:
  "mqtt_connected session_up \<and> mqtt_client session_up \<noteq> None \<and>
   MQTT_PUBLISH_INDIVIDUAL_TOPICS example_config \<and> MQTT_HOME_ASSISTANT_DISCOVERY example_config \<and>
   (1 :: int) \<noteq> - 1 \<and>
   length (filter is_publish
     (drop (length ([] :: event list))
        (snd (mqtt_publish_sdm120_data example_config session_up (\<lambda>k. int k + 1)
               (Some example_data) [])))) = 12"
proof -
  have a: "mqtt_connected session_up" "mqtt_client session_up \<noteq> None"
    by (simp_all add: session_up_def)
  have b: "MQTT_PUBLISH_INDIVIDUAL_TOPICS example_config"
    "MQTT_HOME_ASSISTANT_DISCOVERY example_config"
    by (simp_all add: example_config_def)
  have c: "(\<lambda>k. int k + 1) 0 \<noteq> - 1" by simp
  note th = publish_calls[of session_up example_config "\<lambda>k. int k + 1" example_data "[]",
      OF a b c]
  show ?thesis
    using a b th[THEN conjunct2, THEN conjunct2, THEN conjunct2]
    by simp
qed

text \<open>
  C10. When the session is connected and \<open>data\<close> is not null, the returned code depends
  on the message id of the aggregate call only: \<open>ESP_FAIL\<close> exactly when that call
  returned \<open>-1\<close>, and \<open>ESP_OK\<close> otherwise, whatever the ten per-field calls and the
  availability call returned.
\<close>

theorem publish_result:
  assumes "mqtt_connected sess" and "mqtt_client sess \<noteq> None"
  shows "fst (mqtt_publish_sdm120_data cfg sess publish (Some d) tr) =
      (if publish 0 = - 1 then ESP_FAIL else ESP_OK) \<and> ESP_FAIL \<noteq> ESP_OK"
  using assms
  by (simp add: mqtt_publish_sdm120_data_def Let_def esp_err_defs)

theorem publish_result_witness:
  "mqtt_connected session_up \<and> mqtt_client session_up \<noteq> None \<and>
   fst (mqtt_publish_sdm120_data example_config session_up (\<lambda>k. if k = 0 then 7 else - 1)
          (Some example_data) []) = ESP_OK \<and>
   fst (mqtt_publish_sdm120_data example_config session_up (\<lambda>k. if k = 0 then - 1 else 7)
          (Some example_data) []) = ESP_FAIL"
proof -
  have a: "mqtt_connected session_up" "mqtt_client session_up \<noteq> None"
    by (simp_all add: session_up_def)
  show ?thesis
    using publish_result[OF a, of example_config "\<lambda>k. if k = 0 then 7 else - 1" example_data "[]"]
      publish_result[OF a, of example_config "\<lambda>k. if k = 0 then - 1 else 7" example_data "[]"] a
    by simp
qed

subsection \<open>The polling loop\<close>

text \<open>
  C6. In a cycle in which no parameter succeeds, \<open>read_sdm120_data\<close> returns
  \<open>ESP_ERR_TIMEOUT\<close>, the publisher is not called (no broker call is added to the
  trace), and the cycle ends with the recovery delay of 2000 ms followed by the normal
  interval of 5000 ms. In every other cycle the publisher is called on the batch just
  read, and whatever it returns the cycle ends with the normal interval alone: the
  publisher adds no delay and its result is not looked at for the timing.
\<close>

theorem monitoring_cycle:
  "(let r = read_sdm120_data cfg (modbus env) (Some (meter_data st)) (events st);
        p = mqtt_publish_sdm120_data cfg (session env) (esp_mqtt_client_publish env)
              (fst (snd r)) (snd (snd r));
        c = sdm120_monitoring_cycle cfg env st;
        result = fst c; mqtt_result = fst (snd c); st' = snd (snd c)
    in result = fst r \<and>
       (if succeeded (modbus env) = [] then
          result = ESP_ERR_TIMEOUT \<and> mqtt_result = None \<and>
          events st' = snd (snd r) @ [TaskDelay 2000, TaskDelay 5000] \<and>
          filter is_publish (events st') = filter is_publish (events st)
        else
          result = ESP_OK \<and> mqtt_result = Some (fst p) \<and>
          events st' = snd p @ [TaskDelay 5000] \<and>
          filter is_delay (events st') = filter is_delay (snd (snd r)) @ [TaskDelay 5000]))"
proof -
  obtain r d tr1 where r: "read_sdm120_data cfg (modbus env) (Some (meter_data st)) (events st)
      = (r, Some d, tr1)"
    by (auto simp: read_sdm120_data_Some Let_def)
  have res: "r = (if succeeded (modbus env) = [] then ESP_ERR_TIMEOUT else ESP_OK)"
    using read_sdm120_data_result[of cfg "modbus env" "meter_data st" "events st"] r by simp
  have pub: "filter is_publish tr1 = filter is_publish (events st)"
    using read_sdm120_data_publish[of cfg "modbus env" "Some (meter_data st)" "events st"] r
    by simp
  show ?thesis
  proof (cases "succeeded (modbus env) = []")
    case True
    with res have "r = ESP_ERR_TIMEOUT" by simp
    then show ?thesis
      using True pub
      by (simp add: sdm120_monitoring_cycle_def r Let_def esp_err_defs)
  next
    case False
    with res have "r = ESP_OK" by simp
    then show ?thesis
      using False
      by (simp add: sdm120_monitoring_cycle_def r Let_def publish_no_delay split_beta)
  qed
qed

theorem monitoring_cycle_witness:
  "succeeded (modbus cycle_all_timeout) = [] \<and>
   fst (sdm120_monitoring_cycle example_config cycle_all_timeout initial_task) = ESP_ERR_TIMEOUT \<and>
   fst (snd (sdm120_monitoring_cycle example_config cycle_all_timeout initial_task)) = None \<and>
   filter is_publish
     (events (snd (snd (sdm120_monitoring_cycle example_config cycle_all_timeout initial_task))))
     = [] \<and>
   succeeded (modbus cycle_first_only) = [0] \<and>
   fst (sdm120_monitoring_cycle example_config cycle_first_only initial_task) = ESP_OK \<and>
   fst (snd (sdm120_monitoring_cycle example_config cycle_first_only initial_task)) = Some ESP_OK"
proof -
  have a: "succeeded (modbus cycle_all_timeout) = []" by code_simp
  have b: "succeeded (modbus cycle_first_only) = [0]" by code_simp
  have e: "events initial_task = []" by (simp add: initial_task_def)
  have p: "fst (mqtt_publish_sdm120_data example_config (session cycle_first_only)
      (esp_mqtt_client_publish cycle_first_only) (Some d) tr) = ESP_OK" for d tr
    by (simp add: mqtt_publish_sdm120_data_def cycle_first_only_def session_up_def Let_def
        example_config_def)
  obtain d tr1 where r: "snd (read_sdm120_data example_config (modbus cycle_first_only)
      (Some (meter_data initial_task)) []) = (Some d, tr1)"
    by (auto simp: read_sdm120_data_Some Let_def)
  show ?thesis
    using monitoring_cycle[of example_config cycle_all_timeout initial_task]
      monitoring_cycle[of example_config cycle_first_only initial_task]
    by (simp add: a b e p r Let_def read_sdm120_data_publish)
qed

subsection \<open>The connectivity check\<close>

text \<open>
  The link state that the check sees has no influence on the returned code, on the stored
  values or on the number of reads of any CID.
\<close>

lemma parameter_result_wifi [simp]:
  "parameter_result (env\<lparr>wifi_at := w\<rparr>) c = parameter_result env c"
  by (simp add: parameter_result_def has_descriptor_def)

lemma connectivity_check_is_diagnostic:
  "fst (read_sdm120_data cfg (env\<lparr>wifi_at := w\<rparr>) data_ptr tr) =
     fst (read_sdm120_data cfg env data_ptr tr) \<and>
   fst (snd (read_sdm120_data cfg (env\<lparr>wifi_at := w\<rparr>) data_ptr tr)) =
     fst (snd (read_sdm120_data cfg env data_ptr tr)) \<and>
   attempts c (snd (snd (read_sdm120_data cfg (env\<lparr>wifi_at := w\<rparr>) data_ptr tr))) =
     attempts c (snd (snd (read_sdm120_data cfg env data_ptr tr)))"
proof (cases data_ptr)
  case None
  then show ?thesis by (simp add: read_sdm120_data_def)
next
  case (Some old)
  show ?thesis
    unfolding Some
    by (simp add: read_sdm120_data_Some Let_def success_count_fold data_fold attempts_fold
        has_descriptor_def)
qed

text \<open>
  The counter never exceeds 2 between two parameters: whenever it reaches 3 the check is
  made and the counter is reset. (So the comparison of the counter with half the number
  of parameters at the end of \<open>read_sdm120_data\<close> is never true.)
\<close>

lemma timeout_count_read_parameter:
  "timeout_count st \<le> min 2 c \<Longrightarrow> timeout_count (read_parameter cfg env c st) \<le> min 2 (Suc c)"
  by (auto simp: read_parameter_def Let_def split: prod.splits)

lemma timeout_count_fold:
  "timeout_count st \<le> min 2 k \<Longrightarrow>
   timeout_count (fold (read_parameter cfg env) [k ..< n] st) \<le> 2"
proof (induction "n - k" arbitrary: k st)
  case 0
  then show ?case by simp
next
  case (Suc m)
  then have "k < n" by simp
  moreover have "timeout_count (fold (read_parameter cfg env) [Suc k ..< n]
      (read_parameter cfg env k st)) \<le> 2"
    using Suc.hyps(1)[of "Suc k"] Suc.hyps(2) timeout_count_read_parameter[OF Suc.prems]
    by simp
  ultimately show ?case by (simp add: upt_conv_Cons del: upt_Suc)
qed

lemma timeout_count_bounded:
  "timeout_count (read_parameters cfg env 0
     \<lparr>data = memset_zero, timeout_count = 0, success_count = 0, trace = tr\<rparr>) \<le> 2"
  by (simp add: read_parameters_fold timeout_count_fold)

text \<open>
  C9. The specification speaks of a counter of consecutive timeouts, as does the comment
  at the check in the source. The counter of the code is not reset by a successful read:
  in a batch where only the reads of the CIDs 0, 2 and 4 time out, each between two
  successful parameters, the check is made after CID 4.
\<close>

theorem connectivity_check_after_scattered_timeouts:
  "succeeded env_alternating = [1, 3, 5, 6, 7, 8, 9] \<and>
   filter is_check
     (snd (snd (read_sdm120_data example_config env_alternating (Some memset_zero) []))) =
     [CheckConnectivity ESP_OK] \<and>
   take 3 (drop 23
     (snd (snd (read_sdm120_data example_config env_alternating (Some memset_zero) [])))) =
     [MbGetParameter 4 ESP_ERR_TIMEOUT, CheckConnectivity ESP_OK, TaskDelay 50]"
proof -
  have a: "succeeded env_alternating = [1, 3, 5, 6, 7, 8, 9]"
    by code_simp
  have b: "filter is_check
     (snd (snd (read_sdm120_data example_config env_alternating (Some memset_zero) []))) =
     [CheckConnectivity ESP_OK]"
    by code_simp
  have c: "take 3 (drop 23
     (snd (snd (read_sdm120_data example_config env_alternating (Some memset_zero) [])))) =
     [MbGetParameter 4 ESP_ERR_TIMEOUT, CheckConnectivity ESP_OK, TaskDelay 50]"
    by code_simp
  from a b c show ?thesis by simp
qed

end
